theory Spec2Isabelle
  imports Complex_Main
begin

section \<open>The Bundesmeldenetz grid package (src/osgb36/osgb36.go)\<close>

text \<open>
  The package converts between WGS84 latitude/longitude and coordinates of the Austrian
  Bundesmeldenetz (BMN), and reads and writes the textual form of a BMN coordinate.
  Its four operations are \<open>String\<close>, \<open>ABMNToStruct\<close>, \<open>BMNToWGS84LatLong\<close> and
  \<open>WGS84LatLongToBMN\<close>.
\<close>

subsection \<open>Values of type float64\<close>

text \<open>
  A \<open>float64\<close> is either a finite number, one of the two infinities, or not-a-number.
  A finite value is represented by the rational number it denotes. Every finite float64 is
  such a rational; the rounding of arithmetic results to 53 bits and the sign of zero are
  not represented.
\<close>

datatype float64 = Finite rat | PosInf | NegInf | NaN

text \<open>The comparison \<open>x >= y\<close> of Go: false whenever an operand is not-a-number.\<close>

fun ge64 :: "float64 \<Rightarrow> float64 \<Rightarrow> bool" where
  "ge64 NaN _ = False"
| "ge64 _ NaN = False"
| "ge64 PosInf _ = True"
| "ge64 _ NegInf = True"
| "ge64 (Finite a) (Finite b) = (b \<le> a)"
| "ge64 (Finite a) PosInf = False"
| "ge64 NegInf (Finite b) = False"
| "ge64 NegInf PosInf = False"

subsection \<open>The Go library functions used by the package\<close>

text \<open>
  \<open>fmt.Sprintf("%.0f", x)\<close> prints a finite \<open>x\<close> in decimal with no digit after the
  point and no point: the sign, then the digits of \<open>|x|\<close> rounded to the nearest integer,
  a tie going to the even one. The special values print as \<open>+Inf\<close>, \<open>-Inf\<close>, \<open>NaN\<close>.
\<close>

definition round_half_even :: "rat \<Rightarrow> int" where
  "round_half_even x =
     (let f = \<lfloor>x\<rfloor>; d = x - of_int f in
      if d < 1 / 2 then f
      else if 1 / 2 < d then f + 1
      else if even f then f else f + 1)"

fun decimal :: "nat \<Rightarrow> string" where
  "decimal n = (if n < 10 then [''0123456789'' ! n]
                else decimal (n div 10) @ [''0123456789'' ! (n mod 10)])"

declare decimal.simps [simp del]

fun Sprintf_f0 :: "float64 \<Rightarrow> string" where
  "Sprintf_f0 (Finite x) =
     (if x < 0 then ''-'' else '''') @ decimal (nat (round_half_even \<bar>x\<bar>))"
| "Sprintf_f0 PosInf = ''+Inf''"
| "Sprintf_f0 NegInf = ''-Inf''"
| "Sprintf_f0 NaN = ''NaN''"

text \<open>
  \<open>strings.ToUpper\<close>, \<open>strings.TrimSpace\<close>, \<open>strings.TrimLeft(s, " ")\<close> and
  \<open>strings.Index(s, " ")\<close> on a string of bytes. Letters and white space are the ASCII
  ones; \<open>Index\<close> gives \<open>-1\<close> when the separator does not occur.
\<close>

definition to_upper :: "char \<Rightarrow> char" where
  "to_upper c =
     (case map_of (zip ''abcdefghijklmnopqrstuvwxyz'' ''ABCDEFGHIJKLMNOPQRSTUVWXYZ'') c of
        None \<Rightarrow> c | Some u \<Rightarrow> u)"

definition ToUpper :: "string \<Rightarrow> string" where
  "ToUpper s = map to_upper s"

definition is_space :: "char \<Rightarrow> bool" where
  "is_space c = (c \<in> set [CHR 0x09, CHR 0x0A, CHR 0x0B, CHR 0x0C, CHR 0x0D, CHR '' ''])"

definition TrimSpace :: "string \<Rightarrow> string" where
  "TrimSpace s = rev (dropWhile is_space (rev (dropWhile is_space s)))"

definition TrimLeft :: "string \<Rightarrow> char \<Rightarrow> string" where
  "TrimLeft s c = dropWhile (\<lambda>x. x = c) s"

definition Index :: "string \<Rightarrow> char \<Rightarrow> int" where
  "Index s c = (if c \<in> set s then int (length (takeWhile (\<lambda>x. x \<noteq> c) s)) else - 1)"

text \<open>
  The error values the package hands on: \<open>os.EINVAL\<close>, \<open>os.ERANGE\<close>, and the
  \<open>*strconv.NumError\<close> that \<open>strconv.Atof64\<close> returns, which records the offending text
  and the underlying error.
\<close>

datatype error = EINVAL | ERANGE | NumError string error

text \<open>
  \<open>strconv.Atof64\<close> accepts the names of the special values in any letter case, and
  decimal numerals: an optional sign, digits with at most one point among them and at
  least one digit, and an optional exponent \<open>e\<close> or \<open>E\<close> with optional sign and at least one
  digit; nothing may follow. Anything else is a syntax error, \<open>NumError\<close> of \<open>EINVAL\<close>. A
  numeral whose value rounds beyond the largest float64 is a range error. The value
  returned here is the exact value of the numeral; its rounding to the nearest float64 is
  not represented, so the result is exact for numerals that denote a float64.
\<close>

definition is_digit :: "char \<Rightarrow> bool" where
  "is_digit c = (c \<in> set ''0123456789'')"

definition digit_val :: "char \<Rightarrow> nat" where
  "digit_val c = of_char c - 48"

definition digits_val :: "string \<Rightarrow> nat" where
  "digits_val ds = foldl (\<lambda>a c. 10 * a + digit_val c) 0 ds"

definition exp_val :: "string \<Rightarrow> nat" where
  "exp_val ds = foldl (\<lambda>e c. if e < 10000 then e * 10 + digit_val c else e) 0 ds"

definition special :: "string \<Rightarrow> float64 option" where
  "special s =
     (let u = ToUpper s in
      if u = ''NAN'' then Some NaN
      else if u = ''-INF'' \<or> u = ''-INFINITY'' then Some NegInf
      else if u = ''+INF'' \<or> u = ''+INFINITY'' \<or> u = ''INF'' \<or> u = ''INFINITY''
      then Some PosInf
      else None)"

text \<open>The exponent part: what follows the mantissa, to the end of the text.\<close>

definition read_exponent :: "string \<Rightarrow> int option" where
  "read_exponent r =
     (if r = [] then Some 0
      else if hd r = CHR ''e'' \<or> hd r = CHR ''E'' then
        (let r1 = tl r in
         if r1 = [] then None
         else
           (let esign = (if hd r1 = CHR ''-'' then - 1 else 1);
                r2 = (if hd r1 = CHR ''+'' \<or> hd r1 = CHR ''-'' then tl r1 else r1)
            in if r2 = [] then None
               else if is_digit (hd r2) then
                 (if dropWhile is_digit r2 = [] then Some (int (exp_val r2) * esign)
                  else None)
               else None))
      else None)"

text \<open>Sign, digits of the mantissa read as a natural number, and the power of ten.\<close>

definition readFloat :: "string \<Rightarrow> (bool \<times> nat \<times> int) option" where
  "readFloat s =
     (if s = [] then None
      else
        (let neg = (hd s = CHR ''-'');
             s1 = (if hd s = CHR ''+'' \<or> hd s = CHR ''-'' then tl s else s);
             m = takeWhile (\<lambda>c. is_digit c \<or> c = CHR ''.'') s1;
             r = dropWhile (\<lambda>c. is_digit c \<or> c = CHR ''.'') s1;
             ds = filter is_digit m;
             frac = filter is_digit (dropWhile (\<lambda>c. c \<noteq> CHR ''.'') m)
         in if 1 < length (filter (\<lambda>c. c = CHR ''.'') m) then None
            else if ds = [] then None
            else (case read_exponent r of
                    None \<Rightarrow> None
                  | Some e \<Rightarrow> Some (neg, digits_val ds, e - int (length frac)))))"

definition Atof64 :: "string \<Rightarrow> error + float64" where
  "Atof64 s =
     (case special s of
        Some f \<Rightarrow> Inr f
      | None \<Rightarrow>
          (case readFloat s of
             None \<Rightarrow> Inl (NumError s EINVAL)
           | Some (neg, mant, k) \<Rightarrow>
               (let v = (if 0 \<le> k then of_nat mant * 10 ^ nat k
                         else of_nat mant / 10 ^ nat (- k))
                in if 2 ^ 1024 - 2 ^ 970 \<le> v then Inl (NumError s ERANGE)
                   else Inr (Finite (if neg then - v else v)))))"

subsection \<open>Meridian stripes and grid coordinates\<close>

text \<open>The constants \<open>BMNZoneDet\<close>, \<open>BMNM28\<close>, \<open>BMNM31\<close>, \<open>BMNM34\<close> of type \<open>BMNMeridian\<close>.\<close>

datatype BMNMeridian = BMNZoneDet | BMNM28 | BMNM31 | BMNM34

text \<open>
  The map \<open>bmnStrings\<close> has no entry for \<open>BMNZoneDet\<close>; indexing a Go map at a missing key
  gives the zero value, here the empty string.
\<close>

definition bmnStrings :: "BMNMeridian \<rightharpoonup> string" where
  "bmnStrings = [BMNM28 \<mapsto> ''M28'', BMNM31 \<mapsto> ''M31'', BMNM34 \<mapsto> ''M34'']"

definition bmnStrings_at :: "BMNMeridian \<Rightarrow> string" where
  "bmnStrings_at m = (case bmnStrings m of None \<Rightarrow> '''' | Some s \<Rightarrow> s)"

text \<open>
  Modelled from the spec: the type \<open>*cartconvert.Ellipsoid\<close> and the package-level
  ellipsoids \<open>WGS84Ellipsoid\<close> and \<open>BesselEllipsoid\<close> of package cartconvert, which is not
  among the sources. A value is a reference: the two named ellipsoids of the geographic
  system and of the grid's native datum are different objects, and a caller may hold
  references to others.
\<close>

datatype Ellipsoid = WGS84Ellipsoid | BesselEllipsoid | OtherEllipsoid nat

record BMNCoord =
  Right :: float64
  Height :: float64
  RelHeight :: float64
  Meridian :: BMNMeridian
  el :: Ellipsoid

subsection \<open>String: the canonical text of a BMN coordinate\<close>

text \<open>
  The loop \<open>for n > 0 && fs[n-1] == '0' { n-- }\<close> followed by \<open>fs = fs[:n]\<close>, and the
  test for a final point before it. Both work on the whole text built so far.
\<close>

definition strip_zeros :: "string \<Rightarrow> string" where
  "strip_zeros fs = rev (dropWhile (\<lambda>c. c = CHR ''0'') (rev fs))"

definition strip_point :: "string \<Rightarrow> string" where
  "strip_point fs = (if fs \<noteq> [] \<and> last fs = CHR ''.'' then butlast fs else fs)"

text \<open>One pass of the loop body of \<open>String\<close>, for \<open>i = 0\<close> (Right) and \<open>i = 1\<close> (Height).\<close>

definition String_iter :: "BMNCoord \<Rightarrow> nat \<Rightarrow> string \<Rightarrow> string" where
  "String_iter bc i fs =
     (let next = (if i = 0 then Right bc else BMNCoord.Height bc) in
      strip_point (strip_zeros ((fs @ '' '') @ Sprintf_f0 next)))"

definition String :: "BMNCoord \<Rightarrow> string" where
  "String bc = fold (String_iter bc) [0, 1] (bmnStrings_at (Meridian bc))"

subsection \<open>ABMNToStruct: reading the text of a BMN coordinate\<close>

text \<open>
  What a call gives back: a value with a nil error, a nil pointer with an error, or a
  run-time panic that unwinds the caller.
\<close>

datatype 'a result = Return 'a | Fail error | Panic

text \<open>The local variables of \<open>ABMNToStruct\<close> that the loop \<open>L1\<close> reads and writes.\<close>

record locals =
  compact :: string
  rights :: string
  heights :: string
  meridian :: BMNMeridian
  err :: "error option"

datatype flow = Next locals | Break locals | Panicked

text \<open>
  One pass of the loop \<open>L1\<close> for the counter \<open>i\<close>. The token is \<open>compact[:index]\<close>. A pass
  that does not break ends with \<open>compact = compact[index+len(" "):]\<close>, which panics when
  \<open>index + 1\<close> exceeds the length of \<open>compact\<close>, and with \<open>strings.TrimLeft\<close>.
\<close>

definition L1_body :: "nat \<Rightarrow> locals \<Rightarrow> flow" where
  "L1_body i s =
     (let k = Index (compact s) CHR '' '';
          index = (if k = - 1 then length (compact s) else nat k);
          tok = take index (compact s);
          sw = (if i = 0 then
                  (if tok = ''M28'' then Next (s\<lparr>meridian := BMNM28\<rparr>)
                   else if tok = ''M31'' then Next (s\<lparr>meridian := BMNM31\<rparr>)
                   else if tok = ''M34'' then Next (s\<lparr>meridian := BMNM34\<rparr>)
                   else Break (s\<lparr>err := Some EINVAL\<rparr>))
                else if i = 1 then Next (s\<lparr>rights := tok\<rparr>)
                else if i = 2 then Break (s\<lparr>heights := tok\<rparr>)
                else Next s)
      in case sw of
           Next s' \<Rightarrow>
             (if length (compact s') < index + 1 then Panicked
              else Next (s'\<lparr>compact := TrimLeft (drop (index + 1) (compact s')) CHR '' ''\<rparr>))
         | Break s' \<Rightarrow> Break s'
         | Panicked \<Rightarrow> Panicked)"

function L1 :: "nat \<Rightarrow> locals \<Rightarrow> locals result" where
  "L1 i s =
     (if i < 3 then
        (case L1_body i s of
           Next s' \<Rightarrow> L1 (i + 1) s'
         | Break s' \<Rightarrow> Return s'
         | Panicked \<Rightarrow> Panic)
      else Return s)"
  by pat_completeness auto

termination
  by (relation "measure (\<lambda>(i, s). 3 - i)") auto

declare L1.simps [simp del]

definition ABMNToStruct :: "string \<Rightarrow> BMNCoord result" where
  "ABMNToStruct bmncoord =
     (case L1 0 \<lparr>compact = ToUpper (TrimSpace bmncoord), rights = [], heights = [],
                 meridian = BMNZoneDet, err = None\<rparr> of
        Panic \<Rightarrow> Panic
      | Fail e \<Rightarrow> Fail e
      | Return s \<Rightarrow>
          (case err s of
             Some e \<Rightarrow> Fail e
           | None \<Rightarrow>
               (case Atof64 (rights s) of
                  Inl e \<Rightarrow> Fail e
                | Inr right \<Rightarrow>
                    (case Atof64 (heights s) of
                       Inl e \<Rightarrow> Fail e
                     | Inr height \<Rightarrow>
                         Return \<lparr>Right = right, BMNCoord.Height = height, RelHeight = Finite 0,
                                 Meridian = meridian s, el = BesselEllipsoid\<rparr>))))"


subsection \<open>Package cartconvert\<close>

text \<open>
  Modelled from the spec: the coordinate types of package cartconvert, which is not among
  the sources. A \<open>PolarCoord\<close> is a geodetic point (latitude, longitude, height, ellipsoid),
  a \<open>CartPoint\<close> a geocentric point with the ellipsoid it came from, a \<open>Point3D\<close> a bare
  triple, and a \<open>GeoPoint\<close> a point of the plane of projection with its ellipsoid. The
  fields are those the grid package reads and writes.
\<close>

record PolarCoord =
  Latitude :: float64
  Longitude :: float64
  Height :: float64
  El :: Ellipsoid

record Point3D =
  X :: float64
  Y :: float64
  Z :: float64

record CartPoint =
  X :: float64
  Y :: float64
  Z :: float64
  El :: Ellipsoid

record GeoPoint =
  Y :: float64
  X :: float64
  El :: Ellipsoid

text \<open>
  Modelled from the spec: the functions of package cartconvert that the grid package
  calls. Their bodies are not among the sources, so the conversions below take them as a
  parameter. Following the spec, each is a function of its argument's value alone, with
  no effect on what its argument points to. \<open>Transform\<close> and \<open>InverseTransform\<close> are the
  methods of the fixed transform \<open>HelmertWGS84ToMGI\<close>.
\<close>

record cartconvert =
  PolarToCartesian :: "PolarCoord \<Rightarrow> CartPoint"
  CartesianToPolar :: "CartPoint \<Rightarrow> PolarCoord"
  Transform :: "Point3D \<Rightarrow> Point3D"
  InverseTransform :: "Point3D \<Rightarrow> Point3D"
  DirectTransverseMercator ::
    "PolarCoord \<Rightarrow> float64 \<Rightarrow> float64 \<Rightarrow> float64 \<Rightarrow> float64 \<Rightarrow> float64 \<Rightarrow> GeoPoint"
  InverseTransverseMercator ::
    "GeoPoint \<Rightarrow> float64 \<Rightarrow> float64 \<Rightarrow> float64 \<Rightarrow> float64 \<Rightarrow> float64 \<Rightarrow> PolarCoord"

subsection \<open>The conversions between WGS84 and the grid\<close>

text \<open>
  The switch on the meridian stripe that both conversions contain: the central meridian
  \<open>long0\<close> and the false easting \<open>fe\<close>, or nothing in the default branch, where the
  conversion returns \<open>nil, os.EINVAL\<close>.
\<close>

definition stripe_params :: "BMNMeridian \<Rightarrow> (float64 \<times> float64) option" where
  "stripe_params m =
     (case m of
        BMNM28 \<Rightarrow> Some (Finite (10 + 20 / 60), Finite 150000)
      | BMNM31 \<Rightarrow> Some (Finite (13 + 20 / 60), Finite 450000)
      | BMNM34 \<Rightarrow> Some (Finite (16 + 20 / 60), Finite 750000)
      | BMNZoneDet \<Rightarrow> None)"

definition BMNToWGS84LatLong :: "cartconvert \<Rightarrow> BMNCoord \<Rightarrow> PolarCoord result" where
  "BMNToWGS84LatLong lib bmncoord =
     (case stripe_params (Meridian bmncoord) of
        None \<Rightarrow> Fail EINVAL
      | Some (long0, fe) \<Rightarrow>
          (let gc = InverseTransverseMercator lib
                      \<lparr>GeoPoint.Y = BMNCoord.Height bmncoord, GeoPoint.X = Right bmncoord,
                       GeoPoint.El = el bmncoord\<rparr>
                      (Finite 0) long0 (Finite 1) fe (Finite (- 5000000));
               cart = PolarToCartesian lib gc;
               pt = InverseTransform lib
                      \<lparr>Point3D.X = CartPoint.X cart, Point3D.Y = CartPoint.Y cart,
                       Point3D.Z = CartPoint.Z cart\<rparr>
           in Return (CartesianToPolar lib
                        \<lparr>CartPoint.X = Point3D.X pt, CartPoint.Y = Point3D.Y pt,
                         CartPoint.Z = Point3D.Z pt, CartPoint.El = WGS84Ellipsoid\<rparr>)))"

text \<open>
  The three tests of the stripe detection, in the order of the source. Each bound is the
  constant expression of the source, \<open>8.0+0.5/6*10\<close> and so on, with its exact value.
\<close>

definition in_range_M28 :: "float64 \<Rightarrow> bool" where
  "in_range_M28 lon =
     (ge64 (Finite (11.0 + 0.5 / 6 * 10)) lon \<and> ge64 lon (Finite (8.0 + 0.5 / 6 * 10)))"

definition in_range_M31 :: "float64 \<Rightarrow> bool" where
  "in_range_M31 lon =
     (ge64 (Finite (14.0 + 0.5 / 6 * 10)) lon \<and> ge64 lon (Finite (11.0 + 0.5 / 6 * 10)))"

definition in_range_M34 :: "float64 \<Rightarrow> bool" where
  "in_range_M34 lon =
     (ge64 (Finite (17.0 + 0.5 / 6 * 10)) lon \<and> ge64 lon (Finite (14.0 + 0.5 / 6 * 10)))"

text \<open>
  The statement \<open>if meridian == BMNZoneDet { switch { ... } }\<close>: the first test that holds
  sets the stripe; when none holds the stripe stays as it was.
\<close>

definition detect_stripe :: "BMNMeridian \<Rightarrow> float64 \<Rightarrow> BMNMeridian" where
  "detect_stripe m lon =
     (if m = BMNZoneDet then
        (if in_range_M28 lon then BMNM28
         else if in_range_M31 lon then BMNM31
         else if in_range_M34 lon then BMNM34
         else m)
      else m)"

text \<open>
  The local variable \<open>polar\<close> of \<open>WGS84LatLongToBMN\<close>: the point on the Bessel ellipsoid
  after the Helmert transform of the geocentric coordinates of \<open>gc\<close>.
\<close>

definition polar_MGI :: "cartconvert \<Rightarrow> PolarCoord \<Rightarrow> PolarCoord" where
  "polar_MGI lib gc =
     (let cart = PolarToCartesian lib gc;
          pt = Transform lib
                 \<lparr>Point3D.X = CartPoint.X cart, Point3D.Y = CartPoint.Y cart,
                  Point3D.Z = CartPoint.Z cart\<rparr>
      in CartesianToPolar lib
           \<lparr>CartPoint.X = Point3D.X pt, CartPoint.Y = Point3D.Y pt,
            CartPoint.Z = Point3D.Z pt, CartPoint.El = BesselEllipsoid\<rparr>)"

text \<open>
  \<open>WGS84LatLongToBMN\<close> receives a pointer \<open>gc\<close> and assigns to \<open>gc.El\<close>. The first component
  of the result is the caller's \<open>PolarCoord\<close> as the call leaves it, the second what the
  call returns.
\<close>

definition WGS84LatLongToBMN ::
  "cartconvert \<Rightarrow> PolarCoord \<Rightarrow> BMNMeridian \<Rightarrow> PolarCoord \<times> BMNCoord result" where
  "WGS84LatLongToBMN lib gc0 meridian0 =
     (let gc = gc0\<lparr>PolarCoord.El := WGS84Ellipsoid\<rparr>;
          polar = polar_MGI lib gc;
          m = detect_stripe meridian0 (Longitude polar)
      in (gc,
          case stripe_params m of
            None \<Rightarrow> Fail EINVAL
          | Some (long0, fe) \<Rightarrow>
              (let gp = DirectTransverseMercator lib polar
                          (Finite 0) long0 (Finite 1) fe (Finite (- 5000000))
               in Return \<lparr>Right = GeoPoint.X gp, BMNCoord.Height = GeoPoint.Y gp,
                          RelHeight = Finite 0, Meridian = m, el = GeoPoint.El gp\<rparr>)))"

text \<open>The function \<open>NewBMNCoord\<close>.\<close>

definition NewBMNCoord :: "BMNMeridian \<Rightarrow> float64 \<Rightarrow> float64 \<Rightarrow> float64 \<Rightarrow> BMNCoord" where
  "NewBMNCoord Meridian' Right' Height' RelHeight' =
     \<lparr>Right = Right', BMNCoord.Height = Height', RelHeight = RelHeight',
      Meridian = Meridian', el = BesselEllipsoid\<rparr>"

subsection \<open>A stand-in for package cartconvert\<close>

text \<open>
  The properties of the conversions below hold for every implementation of package
  cartconvert. To apply them at concrete values a simple implementation is fixed here:
  geocentric and planar coordinates carry latitude, longitude and height over unchanged,
  and the datum shift moves the longitude by \<open>d\<close> degrees. It plays no part in the
  statements themselves.
\<close>

fun add64 :: "float64 \<Rightarrow> rat \<Rightarrow> float64" where
  "add64 (Finite x) d = Finite (x + d)"
| "add64 PosInf d = PosInf"
| "add64 NegInf d = NegInf"
| "add64 NaN d = NaN"

definition shift_lib :: "rat \<Rightarrow> cartconvert" where
  "shift_lib d =
     \<lparr>PolarToCartesian = (\<lambda>p. \<lparr>CartPoint.X = Latitude p, CartPoint.Y = Longitude p,
                                 CartPoint.Z = PolarCoord.Height p, CartPoint.El = PolarCoord.El p\<rparr>),
      CartesianToPolar = (\<lambda>c. \<lparr>Latitude = CartPoint.X c, Longitude = CartPoint.Y c,
                                 PolarCoord.Height = CartPoint.Z c, PolarCoord.El = CartPoint.El c\<rparr>),
      Transform = (\<lambda>p. p\<lparr>Point3D.Y := add64 (Point3D.Y p) d\<rparr>),
      InverseTransform = (\<lambda>p. p\<lparr>Point3D.Y := add64 (Point3D.Y p) (- d)\<rparr>),
      DirectTransverseMercator = (\<lambda>p lat0 long0 k0 fe fn.
         \<lparr>GeoPoint.Y = Latitude p, GeoPoint.X = Longitude p, GeoPoint.El = PolarCoord.El p\<rparr>),
      InverseTransverseMercator = (\<lambda>p lat0 long0 k0 fe fn.
         \<lparr>Latitude = GeoPoint.Y p, Longitude = GeoPoint.X p, PolarCoord.Height = Finite 0,
          PolarCoord.El = GeoPoint.El p\<rparr>)\<rparr>"


section \<open>Properties\<close>

subsection \<open>Evaluation lemmas\<close>

lemma floor_rat_numeral_div [simp]:
  "\<lfloor>numeral a / numeral b :: rat\<rfloor> = numeral a div numeral b"
  by (metis floor_divide_of_int_eq of_int_numeral)

lemma bmnStrings_at_simps [simp]:
  "bmnStrings_at BMNZoneDet = []"
  "bmnStrings_at BMNM28 = ''M28''"
  "bmnStrings_at BMNM31 = ''M31''"
  "bmnStrings_at BMNM34 = ''M34''"
  by (simp_all add: bmnStrings_at_def bmnStrings_def)

lemma Sprintf_f0_450000: "Sprintf_f0 (Finite 450000) = ''450000''"
  by (simp add: round_half_even_def Let_def decimal.simps)

lemma Sprintf_f0_350000_5: "Sprintf_f0 (Finite (700001 / 2)) = ''350000''"
  by (simp add: round_half_even_def Let_def decimal.simps)

lemma Sprintf_f0_350000: "Sprintf_f0 (Finite 350000) = ''350000''"
  by (simp add: round_half_even_def Let_def decimal.simps)

lemmas parse_eval =
  ABMNToStruct_def L1.simps L1_body_def Index_def ToUpper_def TrimSpace_def TrimLeft_def
  to_upper_def is_space_def Let_def Atof64_def special_def readFloat_def read_exponent_def
  is_digit_def digit_val_def digits_val_def exp_val_def

lemmas lib_eval =
  shift_lib_def polar_MGI_def in_range_M28_def in_range_M31_def in_range_M34_def Let_def

lemma String_M31_450000_350000:
  "String (NewBMNCoord BMNM31 (Finite 450000) (Finite 350000) (Finite 0)) = ''M31 45 35''"
  by (simp add: NewBMNCoord_def String_def String_iter_def Let_def Sprintf_f0_450000
      Sprintf_f0_350000 strip_zeros_def strip_point_def del: Sprintf_f0.simps)

lemma ABMNToStruct_M31_45_35:
  "ABMNToStruct ''M31 45 35'' = Return (NewBMNCoord BMNM31 (Finite 45) (Finite 35) (Finite 0))"
  by (simp add: parse_eval NewBMNCoord_def)

lemma ABMNToStruct_el: "ABMNToStruct s = Return c \<Longrightarrow> el c = BesselEllipsoid"
  by (auto simp add: ABMNToStruct_def split: result.splits option.splits sum.splits)

lemma ranges_M28_M31:
  "in_range_M28 lon \<and> in_range_M31 lon \<longleftrightarrow> lon = Finite (11.0 + 0.5 / 6 * 10)"
  by (cases lon) (auto simp add: in_range_M28_def in_range_M31_def)

lemma ranges_M31_M34:
  "in_range_M31 lon \<and> in_range_M34 lon \<longleftrightarrow> lon = Finite (14.0 + 0.5 / 6 * 10)"
  by (cases lon) (auto simp add: in_range_M31_def in_range_M34_def)

subsection \<open>Formatting\<close>

text \<open>
  C1. Formatting the coordinate of stripe M31 with easting 450000.00 and northing
  350000.50 does not give the text \<open>M31 450000 350000.5\<close>. The numerals are printed with
  \<open>%.0f\<close>, which rounds the northing to 350000 and never prints a point, and the stripping
  loop then removes the zeros that end each integer: the result is \<open>M31 45 35\<close>.
\<close>

theorem String_450000_350000_5:
  "String \<lparr>Right = Finite 450000, BMNCoord.Height = Finite (3500005 / 10),
           RelHeight = Finite 0, Meridian = BMNM31, el = BesselEllipsoid\<rparr> = ''M31 45 35''"
  by (simp add: String_def String_iter_def Let_def Sprintf_f0_450000 Sprintf_f0_350000_5
      strip_zeros_def strip_point_def del: Sprintf_f0.simps)

text \<open>
  C2. Parsing the formatted text does not give the coordinate back. The coordinate of
  stripe M31 with easting 450000 and northing 350000, as \<open>NewBMNCoord\<close> builds it, is
  formatted as \<open>M31 45 35\<close>, and that text parses to easting 45 and northing 35.
\<close>

theorem ABMNToStruct_String_450000_350000:
  "String (NewBMNCoord BMNM31 (Finite 450000) (Finite 350000) (Finite 0)) = ''M31 45 35'' \<and>
   ABMNToStruct (String (NewBMNCoord BMNM31 (Finite 450000) (Finite 350000) (Finite 0)))
     = Return (NewBMNCoord BMNM31 (Finite 45) (Finite 35) (Finite 0)) \<and>
   ABMNToStruct (String (NewBMNCoord BMNM31 (Finite 450000) (Finite 350000) (Finite 0)))
     \<noteq> Return (NewBMNCoord BMNM31 (Finite 450000) (Finite 350000) (Finite 0))"
  by (simp add: String_M31_450000_350000 ABMNToStruct_M31_45_35)
     (simp add: NewBMNCoord_def)

subsection \<open>Parsing\<close>

text \<open>
  C3. A text with fewer than three tokens whose first token is a stripe code is not
  answered with an error: after the last token the loop slices \<open>compact\<close> one position
  past its end, and the call panics. This happens for \<open>M31 450000\<close> and for \<open>M31\<close>. A text
  with more than three tokens is accepted, the tokens after the third being ignored.
\<close>

theorem ABMNToStruct_two_tokens:
  "ABMNToStruct ''M31 450000'' = Panic \<and>
   ABMNToStruct ''M31'' = Panic \<and>
   ABMNToStruct ''M31 1 2 3'' = Return (NewBMNCoord BMNM31 (Finite 1) (Finite 2) (Finite 0))"
  by (simp add: parse_eval NewBMNCoord_def)

text \<open>
  C5. The text \<open>M31 450000 350000\<close> parses to the coordinate of stripe \<open>BMNM31\<close> with
  easting 450000 and northing 350000 on the Bessel ellipsoid, and whatever text parses
  successfully, the ellipsoid of the result is the Bessel ellipsoid.
\<close>

theorem ABMNToStruct_M31_450000_350000:
  "ABMNToStruct ''M31 450000 350000'' =
     Return \<lparr>Right = Finite 450000, BMNCoord.Height = Finite 350000, RelHeight = Finite 0,
             Meridian = BMNM31, el = BesselEllipsoid\<rparr> \<and>
   (\<forall>s c. ABMNToStruct s = Return c \<longrightarrow> el c = BesselEllipsoid)"
proof
  show "ABMNToStruct ''M31 450000 350000'' =
     Return \<lparr>Right = Finite 450000, BMNCoord.Height = Finite 350000, RelHeight = Finite 0,
             Meridian = BMNM31, el = BesselEllipsoid\<rparr>"
    by (simp add: parse_eval)
  show "\<forall>s c. ABMNToStruct s = Return c \<longrightarrow> el c = BesselEllipsoid"
    using ABMNToStruct_el by blast
qed

text \<open>
  The second part of C5 applied to the text \<open>m34 12.5 7\<close>, which parses successfully.
\<close>

theorem ABMNToStruct_M31_450000_350000_witness:
  "ABMNToStruct ''m34 12.5 7'' =
     Return \<lparr>Right = Finite (25 / 2), BMNCoord.Height = Finite 7, RelHeight = Finite 0,
             Meridian = BMNM34, el = BesselEllipsoid\<rparr> \<and>
   el \<lparr>Right = Finite (25 / 2), BMNCoord.Height = Finite 7, RelHeight = Finite 0,
       Meridian = BMNM34, el = BesselEllipsoid\<rparr> = BesselEllipsoid"
proof -
  have p: "ABMNToStruct ''m34 12.5 7'' =
     Return \<lparr>Right = Finite (25 / 2), BMNCoord.Height = Finite 7, RelHeight = Finite 0,
             Meridian = BMNM34, el = BesselEllipsoid\<rparr>"
    by (simp add: parse_eval)
  from ABMNToStruct_M31_450000_350000 p
  have "el \<lparr>Right = Finite (25 / 2), BMNCoord.Height = Finite 7, RelHeight = Finite 0,
       Meridian = BMNM34, el = BesselEllipsoid\<rparr> = BesselEllipsoid"
    by blast
  with p show ?thesis by blast
qed

text \<open>
  C6. The text \<open>X31 450000 350000\<close>, whose stripe code is none of the three, fails with
  \<open>os.EINVAL\<close>; the text \<open>M31 abc 350000\<close>, whose easting is no numeral, fails with the
  \<open>NumError\<close> of \<open>strconv.Atof64\<close>; and the two errors are different values.
\<close>

theorem ABMNToStruct_errors:
  "ABMNToStruct ''X31 450000 350000'' = Fail EINVAL \<and>
   ABMNToStruct ''M31 abc 350000'' = Fail (NumError ''ABC'' EINVAL) \<and>
   EINVAL \<noteq> NumError ''ABC'' EINVAL"
  by (simp add: parse_eval)

subsection \<open>Arguments after a call\<close>



subsection \<open>The unresolved stripe\<close>



subsection \<open>Stripe detection\<close>






end
